theory Spec2Isabelle
  imports Main "HOL-Library.List_Lexorder" "HOL-Library.Char_ord"
begin

section \<open>Go library functions used by the transpiler\<close>

text \<open>
  The functions of Go's \<^verbatim>\<open>strings\<close> package that the IR builder and the code generator
  call, on byte strings. \<open>old\<close> and \<open>sep\<close> are never empty at the call sites; the empty
  case is Go's behaviour on ASCII text.
\<close>

definition HasPrefix :: "string \<Rightarrow> string \<Rightarrow> bool" where
  "HasPrefix s p = (take (length p) s = p)"

definition HasSuffix :: "string \<Rightarrow> string \<Rightarrow> bool" where
  "HasSuffix s p = (length p \<le> length s \<and> drop (length s - length p) s = p)"

fun Contains :: "string \<Rightarrow> string \<Rightarrow> bool" where
  "Contains [] sub = (sub = [])"
| "Contains (c # s) sub = (HasPrefix (c # s) sub \<or> Contains s sub)"

definition TrimPrefix :: "string \<Rightarrow> string \<Rightarrow> string" where
  "TrimPrefix s p = (if HasPrefix s p then drop (length p) s else s)"

function ReplaceAll :: "string \<Rightarrow> string \<Rightarrow> string \<Rightarrow> string" where
  "ReplaceAll s old new =
     (if old = [] then new @ concat (map (\<lambda>c. c # new) s)
      else if s = [] then []
      else if HasPrefix s old then new @ ReplaceAll (drop (length old) s) old new
      else hd s # ReplaceAll (tl s) old new)"
  by pat_completeness auto
termination
  by (relation "measure (\<lambda>(s, old, new). length s)") auto

declare ReplaceAll.simps [simp del]

fun Join :: "string list \<Rightarrow> string \<Rightarrow> string" where
  "Join [] sep = []"
| "Join [x] sep = x"
| "Join (x # y # ys) sep = x @ sep @ Join (y # ys) sep"

text \<open>\<^verbatim>\<open>strings.Split\<close>: the pieces between the separators, the last piece included.\<close>

function Split_from :: "string \<Rightarrow> string \<Rightarrow> string \<Rightarrow> string list" where
  "Split_from cur s sep =
     (if s = [] then [cur]
      else if sep \<noteq> [] \<and> HasPrefix s sep then cur # Split_from [] (drop (length sep) s) sep
      else Split_from (cur @ [hd s]) (tl s) sep)"
  by pat_completeness auto
termination
  by (relation "measure (\<lambda>(cur, s, sep). length s)") auto

declare Split_from.simps [simp del]

definition Split :: "string \<Rightarrow> string \<Rightarrow> string list" where
  "Split s sep = (if sep = [] then map (\<lambda>c. [c]) s else Split_from [] s sep)"

text \<open>\<^verbatim>\<open>%d\<close> and \<^verbatim>\<open>%v\<close> of an integer: its decimal digits, with a minus sign when negative.\<close>

function digits :: "nat \<Rightarrow> string" where
  "digits n =
     (if n < 10 then [''0123456789'' ! n] else digits (n div 10) @ [''0123456789'' ! (n mod 10)])"
  by pat_completeness auto
termination
  by (relation "measure id") auto

declare digits.simps [simp del]

definition Sprint_int :: "int \<Rightarrow> string" where
  "Sprint_int i = (if i < 0 then CHR ''-'' # digits (nat (- i)) else digits (nat i))"

section \<open>The shell syntax tree\<close>

text \<open>
  The node types of the shell parser library (\<^verbatim>\<open>mvdan.cc/sh/v3/syntax\<close>) that the IR builder
  inspects, with the fields it reads. A parameter expansion is read through the name of its
  parameter only; the statements of a command substitution are never read by the word
  extraction, so \<open>CmdSubst\<close> carries none. \<open>OtherPart\<close> stands for every other kind of word
  part.
\<close>

datatype WordPart =
    Lit string
  | ParamExp string
  | DblQuoted "WordPart list"
  | SglQuoted string
  | CmdSubst
  | OtherPart

datatype Word = Word (Parts: "WordPart list")

record Assign =
  Assign_Name :: string
  Assign_Append :: bool
  Assign_Value :: "Word option"

record CallExpr =
  Assigns :: "Assign list"
  CallExpr_Args :: "Word list"

datatype BinCmdOperator = AndStmt | OrStmt | Pipe | PipeAll

text \<open>
  \<open>syntax_Command\<close> is the library's interface \<^verbatim>\<open>syntax.Command\<close>: one constructor per
  command node the builder has a case for, and \<open>syntax_Other\<close> with the Go type name for
  the remaining ones (case clauses, arithmetic commands, test clauses, declarations, ...).
\<close>

datatype Stmt = Stmt (Cmd: "syntax_Command option")
and syntax_Command =
    syntax_CallExpr CallExpr
  | syntax_BinaryCmd BinaryCmd
  | syntax_Subshell "Stmt list"
  | syntax_Block "Stmt list"
  | syntax_IfClause IfClause
  | syntax_WhileClause "Stmt list" "Stmt list"
  | syntax_ForClause "Stmt list"
  | syntax_FuncDecl string Stmt
  | syntax_Other string
and BinaryCmd = BinaryCmd (Op: BinCmdOperator) (X: Stmt) (Y: Stmt)
and IfClause = IfClause (Cond: "Stmt list") (Then: "Stmt list") (Else: "IfClause option")

datatype File = File (Stmts: "Stmt list")

text \<open>A redirection node, with its operator as the text that \<^verbatim>\<open>Op.String()\<close> gives.\<close>

record Redirect =
  Redirect_Op :: string
  Redirect_Word :: "Word option"

text \<open>
  \<open>Node\<close> is the interface \<^verbatim>\<open>syntax.Node\<close>: one constructor per node type that
  \<open>flattenPipe\<close>, \<open>VisitNode\<close> or the visitor of \<open>BuildIR\<close> switches on, with the fields
  the code reads (for a for clause, whether its \<^verbatim>\<open>Loop\<close> field is set, and its body), and
  \<open>Node_Other\<close> for a node of any other type and for the nil node.
\<close>

datatype Node =
    Node_BinaryCmd BinaryCmd
  | Node_Stmt Stmt
  | Node_CallExpr CallExpr
  | Node_File File
  | Node_Assign Assign
  | Node_FuncDecl string "Stmt option"
  | Node_IfClause IfClause
  | Node_WhileClause "Stmt list" "Stmt list"
  | Node_ForClause bool "Stmt list"
  | Node_Subshell "Stmt list"
  | Node_Redirect Redirect
  | Node_Other

section \<open>The intermediate representation\<close>

record Command =
  Name :: string
  Args :: "string list"
  IsBuiltin :: bool
  UseGexe :: bool

record Assignment =
  Assignment_Name :: string
  Assignment_Value :: string
  IsLocal :: bool
  IsExport :: bool

record Pipe_ir =
  Commands :: "Command list"

record Redirection =
  Redirection_Op :: string
  Redirection_Command :: Command
  Filename :: string

record Background =
  Background_Command :: Command

record Return =
  Return_Value :: string
  Return_Code :: int

text \<open>
  \<open>Statement\<close> is a type tag with a payload of interface type; \<open>Payload\<close> lists the dynamic
  types the code stores there, and \<open>V_nil\<close> the nil interface.
\<close>

datatype Statement = Statement (Type: int) (Value: Payload)
and Payload =
    V_Command Command
  | V_Assignment Assignment
  | V_If If_ir
  | V_Loop Loop
  | V_Pipe Pipe_ir
  | V_Subshell Subshell
  | V_Function Function
  | V_Redirection Redirection
  | V_Background Background
  | V_Return Return
  | V_nil
and If_ir = If_ir
    (Condition: "Statement list")
    (ThenBlock: "Statement list")
    (ElseBlock: "Statement list")
    (ElifBlocks: "(Statement list \<times> Statement list) list")
    (ConditionType: string)
and Loop = Loop
    (Loop_Type: string)
    (Init: "Statement list")
    (Loop_Condition: "Statement list")
    (Update: "Statement list")
    (Body: "Statement list")
    (IsRange: bool)
    (RangeVar: string)
    (RangeFrom: string)
    (RangeTo: string)
    (IsForEach: bool)
    (Items: string)
and Subshell = Subshell (Statements: "Statement list")
and Function = Function
    (Function_Name: string)
    (Function_Statements: "Statement list")
    (Parameters: "string list")
    (LocalVars: "string \<rightharpoonup> string")

definition StatementCommand :: int where "StatementCommand = 0"
definition StatementAssignment :: int where "StatementAssignment = 1"
definition StatementIf :: int where "StatementIf = 2"
definition StatementLoop :: int where "StatementLoop = 3"
definition StatementPipe :: int where "StatementPipe = 4"
definition StatementSubshell :: int where "StatementSubshell = 5"
definition StatementFunction :: int where "StatementFunction = 6"
definition StatementRedirection :: int where "StatementRedirection = 7"
definition StatementBackground :: int where "StatementBackground = 8"
definition StatementReturn :: int where "StatementReturn = 9"

lemmas StatementType_defs =
  StatementCommand_def StatementAssignment_def StatementIf_def StatementLoop_def
  StatementPipe_def StatementSubshell_def StatementFunction_def StatementRedirection_def
  StatementBackground_def StatementReturn_def

section \<open>The IR builder\<close>

fun extractDblQuotedPart :: "WordPart \<Rightarrow> string" where
  "extractDblQuotedPart (Lit v) = v"
| "extractDblQuotedPart (ParamExp p) = ''${'' @ p @ ''}''"
| "extractDblQuotedPart _ = []"

definition extractDblQuotedValue :: "WordPart list \<Rightarrow> string" where
  "extractDblQuotedValue parts = concat (map extractDblQuotedPart parts)"

fun extractWordPart :: "WordPart \<Rightarrow> string" where
  "extractWordPart (Lit v) = v"
| "extractWordPart (ParamExp p) = ''$'' @ p"
| "extractWordPart (DblQuoted parts) = extractDblQuotedValue parts"
| "extractWordPart (SglQuoted v) = v"
| "extractWordPart CmdSubst = ''$(command)''"
| "extractWordPart OtherPart = []"

definition extractWordValue :: "Word \<Rightarrow> string" where
  "extractWordValue word = concat (map extractWordPart (Parts word))"

definition builtin_names :: "string list" where
  "builtin_names =
     [''echo'', ''printf'', ''cd'', ''pwd'', ''exit'', ''return'', ''test'', ''['',
      ''source'', ''export'', ''read'']"

definition processCallExpr :: "CallExpr \<Rightarrow> Command" where
  "processCallExpr x =
     (let cmd = \<lparr>Name = [], Args = [], IsBuiltin = False, UseGexe = True\<rparr> in
      if length (CallExpr_Args x) > 0 then
        let cmd = cmd\<lparr>Name := extractWordValue (CallExpr_Args x ! 0)\<rparr>;
            cmd = (if Name cmd \<in> set builtin_names
                   then cmd\<lparr>IsBuiltin := True, UseGexe := False\<rparr> else cmd)
        in cmd\<lparr>Args := Args cmd @ map extractWordValue (drop 1 (CallExpr_Args x))\<rparr>
      else cmd)"

definition processAssign :: "Assign \<Rightarrow> Assignment" where
  "processAssign x =
     (let assign = \<lparr>Assignment_Name = Assign_Name x, Assignment_Value = [],
                     IsLocal = False, IsExport = Assign_Append x\<rparr>
      in case Assign_Value x of
           None \<Rightarrow> assign
         | Some w \<Rightarrow> assign\<lparr>Assignment_Value := extractWordValue w\<rparr>)"

text \<open>
  \<open>processIfClause\<close>: the three loops of the source are folds over the statement lists;
  \<open>cond_step\<close> and \<open>then_step\<close> are the loop bodies. Only a call expression adds a
  statement; the condition type is overwritten when a \<^verbatim>\<open>test\<close> or \<^verbatim>\<open>[\<close> command with at
  least two arguments has a first argument in one of the three operator groups, and is
  left as it is otherwise.
\<close>

definition condition_type_of :: "string \<Rightarrow> string \<Rightarrow> string" where
  "condition_type_of arg0 current =
     (if arg0 \<in> set [''-f'', ''-d'', ''-e''] then ''file''
      else if arg0 \<in> set [''-z'', ''-n'', ''='', ''!=''] then ''string''
      else if arg0 \<in> set [''-eq'', ''-ne'', ''-lt'', ''-le'', ''-gt'', ''-ge''] then ''number''
      else current)"

fun cond_step :: "If_ir \<Rightarrow> Stmt \<Rightarrow> If_ir" where
  "cond_step (If_ir c t e el ct) (Stmt (Some (syntax_CallExpr call))) =
     (let cmd = processCallExpr call;
          c' = c @ [Statement StatementCommand (V_Command cmd)]
      in if Name cmd = ''test'' \<or> Name cmd = ''[''
         then (if length (Args cmd) \<ge> 2
               then If_ir c' t e el (condition_type_of (Args cmd ! 0) ct)
               else If_ir c' t e el ct)
         else If_ir c' t e el ct)"
| "cond_step ifStmt _ = ifStmt"

fun then_step :: "If_ir \<Rightarrow> Stmt \<Rightarrow> If_ir" where
  "then_step (If_ir c t e el ct) (Stmt (Some (syntax_CallExpr call))) =
     If_ir c (t @ [Statement StatementCommand (V_Command (processCallExpr call))]) e el ct"
| "then_step ifStmt _ = ifStmt"

fun append_elif :: "If_ir \<Rightarrow> If_ir \<Rightarrow> If_ir" where
  "append_elif (If_ir c t e el ct) elifStmt =
     If_ir c t e (el @ [(Condition elifStmt, ThenBlock elifStmt)]) ct"

fun processIfClause :: "IfClause \<Rightarrow> If_ir" where
  "processIfClause (IfClause cond thn els) =
     (let ifStmt = If_ir [] [] [] [] ''command'';
          ifStmt = foldl cond_step ifStmt cond;
          ifStmt = foldl then_step ifStmt thn
      in case els of
           None \<Rightarrow> ifStmt
         | Some x_else \<Rightarrow> append_elif ifStmt (processIfClause x_else))"

text \<open>
  \<open>flattenPipe\<close> takes a node of interface type. The operands of a binary command are
  statements, so the recursive calls arrive in the statement case, which looks for a call
  expression only.
\<close>

function (sequential) flattenPipe :: "Node \<Rightarrow> Command list" where
  "flattenPipe (Node_BinaryCmd (BinaryCmd op x y)) =
     (if op = Pipe then flattenPipe (Node_Stmt x) @ flattenPipe (Node_Stmt y)
      else flattenPipe (Node_Stmt x) @ flattenPipe (Node_Stmt y))"
| "flattenPipe (Node_Stmt (Stmt cmd)) =
     (case cmd of
        Some (syntax_CallExpr call) \<Rightarrow> [processCallExpr call]
      | _ \<Rightarrow> [])"
| "flattenPipe (Node_CallExpr n) = [processCallExpr n]"
| "flattenPipe _ = []"
  by pat_completeness auto
termination
  by (relation "measure (\<lambda>n. case n of Node_BinaryCmd b \<Rightarrow> 1 | _ \<Rightarrow> 0)") auto

definition processPipe :: "BinaryCmd \<Rightarrow> Pipe_ir" where
  "processPipe x = \<lparr>Commands = flattenPipe (Node_BinaryCmd x)\<rparr>"

text \<open>
  The condition category as the specification words it, from the first argument alone.
\<close>

definition spec_condition_category :: "string \<Rightarrow> string" where
  "spec_condition_category arg0 =
     (if arg0 \<in> {''-f'', ''-d'', ''-e''} then ''file''
      else if arg0 \<in> {''-z'', ''-n'', ''='', ''!=''} then ''string''
      else if arg0 \<in> {''-eq'', ''-ne'', ''-lt'', ''-le'', ''-gt'', ''-ge''} then ''number''
      else ''command'')"

section \<open>The code generator\<close>

text \<open>
  A Go \<^verbatim>\<open>(string, error)\<close> result is a sum: every failing return of the generator has the
  empty string beside its error. \<open>Panic\<close> is a run-time panic (a failed type assertion on
  a statement's payload), \<open>Error\<close> an error value with its message. The generator's field
  \<^verbatim>\<open>RequiredImports\<close>, a map whose stored values are all \<^verbatim>\<open>true\<close>, is the set of its
  keys, passed in and returned by every function that writes to it.
\<close>

datatype error = Panic string | Error string

type_synonym Imports = "string set"

abbreviation TAB :: string where
  "TAB \<equiv> [CHR 0x09]"

definition isValidVarNameStart :: "char \<Rightarrow> bool" where
  "isValidVarNameStart c =
     ((c \<ge> CHR ''a'' \<and> c \<le> CHR ''z'') \<or> (c \<ge> CHR ''A'' \<and> c \<le> CHR ''Z'') \<or> c = CHR ''_'')"

definition isValidVarNameChar :: "char \<Rightarrow> bool" where
  "isValidVarNameChar c = (isValidVarNameStart c \<or> (c \<ge> CHR ''0'' \<and> c \<le> CHR ''9''))"

text \<open>
  The loop of \<open>extractVariableNames\<close> over the bytes of the string, with its three
  variables as arguments: the names found, the flag \<open>inVar\<close> and the name being read.
\<close>

fun extractVariableNames_loop :: "string \<Rightarrow> string list \<Rightarrow> bool \<Rightarrow> string \<Rightarrow> string list" where
  "extractVariableNames_loop [] result inVar varName =
     (if inVar then result @ [varName] else result)"
| "extractVariableNames_loop (c # rest) result inVar varName =
     (if c = CHR ''$'' \<and> rest \<noteq> [] \<and> isValidVarNameStart (hd rest)
      then extractVariableNames_loop rest result True []
      else if inVar
      then (if isValidVarNameChar c
            then extractVariableNames_loop rest result inVar (varName @ [c])
            else extractVariableNames_loop rest (result @ [varName]) False varName)
      else extractVariableNames_loop rest result inVar varName)"

definition extractVariableNames :: "string \<Rightarrow> string list" where
  "extractVariableNames s = extractVariableNames_loop s [] False []"

text \<open>
  The slice \<^verbatim>\<open>s[1 : len(s)-1]\<close>. At each use the string has a one-byte prefix and a
  one-byte suffix that differ or has a third byte between them, so it has at least two
  bytes and the slice is in range.
\<close>

definition inner :: "string \<Rightarrow> string" where
  "inner s = take (length s - 2) (drop 1 s)"

definition quoted :: "string \<Rightarrow> string" where
  "quoted s = ''\"'' @ s @ ''\"''"

text \<open>The body of the loop over the arguments of \<^verbatim>\<open>echo\<close>: the operand for one argument.\<close>

definition echo_arg :: "string \<Rightarrow> string" where
  "echo_arg arg =
     (if HasPrefix arg ''\"'' \<and> HasSuffix arg ''\"'' then
        (if Contains arg ''$'' then
           (let processedArg = inner arg;
                processedArg = ReplaceAll processedArg ''${'' ''\" + '';
                processedArg = ReplaceAll processedArg ''}'' '' + \"'';
                processedArg =
                  foldl (\<lambda>p varName. ReplaceAll p (''$'' @ varName) (''\" + '' @ varName @ '' + \"''))
                    processedArg (extractVariableNames processedArg)
            in ''\"'' @ processedArg @ ''\"'')
         else arg)
      else if HasPrefix arg ''$'' then
        (let varName = TrimPrefix arg ''$''
         in if HasPrefix varName ''{'' \<and> HasSuffix varName ''}'' then inner varName else varName)
      else quoted arg)"

text \<open>A variable reference \<^verbatim>\<open>$NAME\<close> becomes the identifier, anything else a Go string literal.\<close>

definition var_or_quoted :: "string \<Rightarrow> string" where
  "var_or_quoted arg = (if HasPrefix arg ''$'' then TrimPrefix arg ''$'' else quoted arg)"

definition gexe_arg :: "string \<Rightarrow> string" where
  "gexe_arg arg =
     '' '' @ (if Contains arg '' '' \<and> \<not> HasPrefix arg ''\"'' then quoted arg else arg)"

definition gexe_cmdStr :: "Command \<Rightarrow> string" where
  "gexe_cmdStr cmd = Name cmd @ concat (map gexe_arg (Args cmd))"

definition generateCommand :: "Imports \<Rightarrow> Command \<Rightarrow> (error + string) \<times> Imports" where
  "generateCommand g cmd =
     (if Name cmd = ''echo'' then
        (if length (Args cmd) = 0 then (Inr ''fmt.Println()'', insert ''fmt'' g)
         else (Inr (''fmt.Println('' @ Join (map echo_arg (Args cmd)) '', '' @ '')''),
               insert ''fmt'' g))
      else if Name cmd = ''cd'' then
        (if length (Args cmd) = 0
         then (Inr ''err = os.Chdir(os.Getenv(\"HOME\"))'', insert ''os'' g)
         else
           (let arg = Args cmd ! 0 in
            if HasPrefix arg ''$'' then
              (let varName = TrimPrefix arg ''$'';
                   varName = (if HasPrefix varName ''{'' \<and> HasSuffix varName ''}''
                              then inner varName else varName)
               in (Inr (''err = os.Chdir('' @ varName @ '')''), insert ''os'' g))
            else (Inr (''err = os.Chdir(\"'' @ arg @ ''\")''), insert ''os'' g)))
      else if Name cmd = ''pwd'' then
        (Inr (''dir, err := os.Getwd()\<newline>'' @ TAB @ ''if err != nil {\<newline>'' @ TAB @ TAB
              @ ''return err\<newline>'' @ TAB @ ''}\<newline>'' @ TAB @ ''fmt.Println(dir)''),
         insert ''os'' g)
      else if Name cmd = ''mkdir'' then
        (if length (Args cmd) = 0
         then (Inr ''// Warning: mkdir command with no arguments'', insert ''os'' g)
         else
           (let arg = Args cmd ! 0 in
            if HasPrefix arg ''$''
            then (Inr (''err = os.MkdirAll('' @ TrimPrefix arg ''$'' @ '', 0755)''), insert ''os'' g)
            else (Inr (''err = os.MkdirAll(\"'' @ arg @ ''\", 0755)''), insert ''os'' g)))
      else if Name cmd = ''rm'' then
        (if length (Args cmd) = 0
         then (Inr ''// Warning: rm command with no arguments'', insert ''os'' g)
         else
           (let (isRecursive, target) =
                  foldl (\<lambda>(r, t) arg.
                           if arg = ''-r'' \<or> arg = ''-rf'' \<or> arg = ''-fr'' then (True, t)
                           else if \<not> HasPrefix arg ''-'' then (r, arg) else (r, t))
                    (False, []) (Args cmd);
                call = (if isRecursive then ''err = os.RemoveAll('' else ''err = os.Remove('')
            in if HasPrefix target ''$''
               then (Inr (call @ TrimPrefix target ''$'' @ '')''), insert ''os'' g)
               else (Inr (call @ quoted target @ '')''), insert ''os'' g)))
      else if Name cmd = ''cp'' then
        (if length (Args cmd) < 2
         then (Inr ''// Warning: cp command with insufficient arguments'',
               insert ''os'' (insert ''io/ioutil'' g))
         else
           (let src = var_or_quoted (Args cmd ! 0);
                dst = var_or_quoted (Args cmd ! 1)
            in (Inr (''data, err := ioutil.ReadFile('' @ src @ '')\<newline>'' @ TAB
                     @ ''if err != nil {\<newline>'' @ TAB @ TAB @ ''return err\<newline>'' @ TAB
                     @ ''}\<newline>'' @ TAB @ ''err = ioutil.WriteFile('' @ dst @ '', data, 0644)''),
                insert ''os'' (insert ''io/ioutil'' g))))
      else if Name cmd = ''test'' \<or> Name cmd = ''['' then
        (if length (Args cmd) < 2
         then (Inr ''// Warning: test command with insufficient arguments'', insert ''os'' g)
         else
           (let op = Args cmd ! 0; arg = Args cmd ! 1 in
            if op = ''-f'' then
              (Inr (''_, err := os.Stat('' @ var_or_quoted arg @ ''); err == nil''), insert ''os'' g)
            else if op = ''-d'' then
              (Inr (''info, err := os.Stat('' @ var_or_quoted arg @ '')\<newline>'' @ TAB
                    @ ''if err == nil && info.IsDir()''), insert ''os'' g)
            else if op = ''-z'' then
              (Inr (''len('' @ var_or_quoted arg @ '') == 0''), insert ''os'' g)
            else if op = ''-n'' then
              (Inr (''len('' @ var_or_quoted arg @ '') > 0''), insert ''os'' g)
            else
              (Inr (''exe.Run(\"test '' @ Join (Args cmd) '' '' @ ''\").Success()''),
               insert ''github.com/vladimirvivien/gexe'' (insert ''os'' g))))
      else if Name cmd = ''exit'' then
        (if length (Args cmd) = 0 then (Inr ''os.Exit(0)'', insert ''os'' g)
         else
           (let code = Args cmd ! 0 in
            if HasPrefix code ''$''
            then (Inr (''os.Exit('' @ TrimPrefix code ''$'' @ '')''), insert ''os'' g)
            else (Inr (''os.Exit('' @ code @ '')''), insert ''os'' g)))
      else if UseGexe cmd then
        (Inr (''// Execute command: '' @ gexe_cmdStr cmd @ ''\<newline>'' @ TAB
              @ ''output := exe.Run(\"'' @ gexe_cmdStr cmd @ ''\").Stdout()\<newline>'' @ TAB
              @ ''fmt.Print(output)''),
         insert ''github.com/vladimirvivien/gexe'' g)
      else
        (let args = map var_or_quoted (Args cmd);
             argsStr = (if length args > 0 then '', '' @ Join args '', '' else [])
         in (Inr (''cmd := exec.Command(\"'' @ Name cmd @ ''\"'' @ argsStr @ '')\<newline>'' @ TAB
                  @ ''output, err := cmd.CombinedOutput()\<newline>'' @ TAB
                  @ ''if err != nil {\<newline>'' @ TAB @ TAB
                  @ ''return fmt.Errorf(\"failed to execute command: %v\", err)\<newline>'' @ TAB
                  @ ''}\<newline>'' @ TAB @ ''fmt.Print(string(output))''),
             insert ''fmt'' (insert ''os/exec'' g))))"

definition generateAssignment :: "Imports \<Rightarrow> Assignment \<Rightarrow> (error + string) \<times> Imports" where
  "generateAssignment g assign =
     (if IsLocal assign
      then (Inr (''var '' @ Assignment_Name assign @ '' = '' @ Assignment_Value assign), g)
      else if IsExport assign
      then (Inr (''os.Setenv(\"'' @ Assignment_Name assign @ ''\", '' @ Assignment_Value assign @ '')''),
            insert ''os'' g)
      else (Inr (Assignment_Name assign @ '' := '' @ Assignment_Value assign), g))"

text \<open>
  \<open>test_condition\<close> is the part of \<open>generateCondition\<close> that returns from inside the
  switch over the first argument of a \<^verbatim>\<open>test\<close> or \<^verbatim>\<open>[\<close> command: the condition and
  whether \<^verbatim>\<open>os\<close> is recorded as an import; \<open>None\<close> where control leaves the switch and
  reaches the process fallback. The third argument \<open>a2\<close> is read only where there are
  three.
\<close>

definition test_condition :: "Command \<Rightarrow> (string \<times> bool) option" where
  "test_condition cmd =
     (if (Name cmd = ''test'' \<or> Name cmd = ''['') \<and> length (Args cmd) \<ge> 2 then
        (let op = Args cmd ! 0; a1 = Args cmd ! 1; a2 = Args cmd ! 2;
             three = (length (Args cmd) \<ge> 3) in
         if op = ''-f'' then Some (''_, err := os.Stat(\"'' @ a1 @ ''\"); err == nil'', True)
         else if op = ''-d'' then
           Some (''info, err := os.Stat(\"'' @ a1 @ ''\"); err == nil && info.IsDir()'', True)
         else if op = ''-z'' then Some (''len(\"'' @ a1 @ ''\") == 0'', False)
         else if op = ''-n'' then Some (''len(\"'' @ a1 @ ''\") > 0'', False)
         else if op = ''='' \<and> three then Some (quoted a1 @ '' == '' @ quoted a2, False)
         else if op = ''!='' \<and> three then Some (quoted a1 @ '' != '' @ quoted a2, False)
         else if op = ''-eq'' \<and> three then Some (a1 @ '' == '' @ a2, False)
         else if op = ''-ne'' \<and> three then Some (a1 @ '' != '' @ a2, False)
         else if op = ''-lt'' \<and> three then Some (a1 @ '' < '' @ a2, False)
         else if op = ''-le'' \<and> three then Some (a1 @ '' <= '' @ a2, False)
         else if op = ''-gt'' \<and> three then Some (a1 @ '' > '' @ a2, False)
         else if op = ''-ge'' \<and> three then Some (a1 @ '' >= '' @ a2, False)
         else None)
      else None)"

definition type_assertion_panic :: error where
  "type_assertion_panic = Panic ''interface conversion''"

definition generateCondition ::
  "Imports \<Rightarrow> Statement list \<Rightarrow> string \<Rightarrow> (error + string) \<times> Imports" where
  "generateCondition g conditions conditionType =
     (if length conditions = 0 then (Inr ''true'', g)
      else
        (let stmt = conditions ! 0 in
         if Type stmt = StatementCommand then
           (case Value stmt of
              V_Command cmd \<Rightarrow>
                (case test_condition cmd of
                   Some (code, needs_os) \<Rightarrow> (Inr code, if needs_os then insert ''os'' g else g)
                 | None \<Rightarrow>
                     (Inr (''exe.Run(\"'' @ Name cmd @ concat (map (\<lambda>arg. '' '' @ arg) (Args cmd))
                           @ ''\").Success()''),
                      insert ''github.com/vladimirvivien/gexe'' g))
            | _ \<Rightarrow> (Inl type_assertion_panic, g))
         else (Inr ''true'', g)))"

definition pipe_cmdStr :: "Command list \<Rightarrow> string" where
  "pipe_cmdStr cmds = Join (map gexe_cmdStr cmds) '' | ''"

definition generatePipe :: "Imports \<Rightarrow> Pipe_ir \<Rightarrow> (error + string) \<times> Imports" where
  "generatePipe g pipe =
     (if length (Commands pipe) = 0 then (Inr ''// Empty pipe'', g)
      else
        (Inr (''// Execute piped command: '' @ pipe_cmdStr (Commands pipe) @ ''\<newline>'' @ TAB
              @ ''output := exe.Run(\"'' @ pipe_cmdStr (Commands pipe) @ ''\").Stdout()\<newline>'' @ TAB
              @ ''fmt.Print(output)''),
         insert ''github.com/vladimirvivien/gexe'' g))"

definition redirection_tail :: "string \<Rightarrow> string" where
  "redirection_tail todo =
     TAB @ ''if err != nil {\<newline>'' @ TAB @ TAB @ ''return err\<newline>'' @ TAB @ ''}\<newline>''
     @ TAB @ ''defer file.Close()\<newline>'' @ TAB @ ''\<newline>'' @ TAB @ todo"

definition generateRedirection :: "Imports \<Rightarrow> Redirection \<Rightarrow> (error + string) \<times> Imports" where
  "generateRedirection g redirection =
     (let f = Filename redirection in
      if Redirection_Op redirection = ''>'' then
        (Inr (''// Redirect output to '' @ f @ ''\<newline>'' @ TAB
              @ ''file, err := os.Create(\"'' @ f @ ''\")\<newline>''
              @ redirection_tail ''// TODO: Execute command and write output to file''),
         insert ''os'' g)
      else if Redirection_Op redirection = ''>>'' then
        (Inr (''// Redirect output to '' @ f @ '' (append)\<newline>'' @ TAB
              @ ''file, err := os.OpenFile(\"'' @ f
              @ ''\", os.O_APPEND|os.O_CREATE|os.O_WRONLY, 0644)\<newline>''
              @ redirection_tail ''// TODO: Execute command and write output to file''),
         insert ''os'' g)
      else if Redirection_Op redirection = ''<'' then
        (Inr (''// Redirect input from '' @ f @ ''\<newline>'' @ TAB
              @ ''file, err := os.Open(\"'' @ f @ ''\")\<newline>''
              @ redirection_tail ''// TODO: Execute command with input from file''),
         insert ''os'' g)
      else (Inr (''// Unsupported redirection: '' @ Redirection_Op redirection), insert ''os'' g))"

text \<open>
  The statement generators call each other. \<open>generateStatements\<close> writes each
  statement's code and a newline into its builder and returns the empty string with the
  first error.
\<close>

fun generateStatements :: "Imports \<Rightarrow> Statement list \<Rightarrow> (error + string) \<times> Imports"
and generateStatement :: "Imports \<Rightarrow> Statement \<Rightarrow> (error + string) \<times> Imports"
and generateIf :: "Imports \<Rightarrow> If_ir \<Rightarrow> (error + string) \<times> Imports"
and generateLoop :: "Imports \<Rightarrow> Loop \<Rightarrow> (error + string) \<times> Imports"
and generateSubshell :: "Imports \<Rightarrow> Subshell \<Rightarrow> (error + string) \<times> Imports"
where
  "generateStatements g [] = (Inr [], g)"
| "generateStatements g (stmt # rest) =
     (case generateStatement g stmt of
        (Inl err, g1) \<Rightarrow> (Inl err, g1)
      | (Inr code, g1) \<Rightarrow>
          (case generateStatements g1 rest of
             (Inl err, g2) \<Rightarrow> (Inl err, g2)
           | (Inr result, g2) \<Rightarrow> (Inr (code @ ''\<newline>'' @ result), g2)))"
| "generateStatement g (Statement t v) =
     (if t = StatementCommand then
        (case v of V_Command cmd \<Rightarrow> generateCommand g cmd
                 | _ \<Rightarrow> (Inl type_assertion_panic, g))
      else if t = StatementAssignment then
        (case v of V_Assignment assignment \<Rightarrow> generateAssignment g assignment
                 | _ \<Rightarrow> (Inl type_assertion_panic, g))
      else if t = StatementIf then
        (case v of V_If ifStmt \<Rightarrow> generateIf g ifStmt
                 | _ \<Rightarrow> (Inl type_assertion_panic, g))
      else if t = StatementLoop then
        (case v of V_Loop loop \<Rightarrow> generateLoop g loop
                 | _ \<Rightarrow> (Inl type_assertion_panic, g))
      else if t = StatementPipe then
        (case v of V_Pipe pipe \<Rightarrow> generatePipe g pipe
                 | _ \<Rightarrow> (Inl type_assertion_panic, g))
      else if t = StatementSubshell then
        (case v of V_Subshell subshell \<Rightarrow> generateSubshell g subshell
                 | _ \<Rightarrow> (Inl type_assertion_panic, g))
      else if t = StatementRedirection then
        (case v of V_Redirection redirection \<Rightarrow> generateRedirection g redirection
                 | _ \<Rightarrow> (Inl type_assertion_panic, g))
      else if t = StatementFunction then
        (Inr ''// Function declaration (handled separately)'', g)
      else if t = StatementBackground then
        (case v of
           V_Background background \<Rightarrow>
             (case generateCommand g (Background_Command background) of
                (Inl err, g1) \<Rightarrow> (Inl err, g1)
              | (Inr cmdCode, g1) \<Rightarrow>
                  (Inr (''go func() {\<newline>'' @ TAB @ cmdCode @ ''\<newline>}()''), insert ''sync'' g1))
         | _ \<Rightarrow> (Inl type_assertion_panic, g))
      else if t = StatementReturn then
        (case v of
           V_Return returnStmt \<Rightarrow>
             (if Return_Value returnStmt \<noteq> []
              then (Inr (''return '' @ Return_Value returnStmt), g)
              else (Inr (''return '' @ Sprint_int (Return_Code returnStmt)), g))
         | _ \<Rightarrow> (Inl type_assertion_panic, g))
      else (Inr (''// Unsupported statement type: '' @ Sprint_int t), g))"
| "generateIf g (If_ir cond thn els elifs ct) =
     (case generateCondition g cond ct of
        (Inl err, g1) \<Rightarrow> (Inl err, g1)
      | (Inr condition, g1) \<Rightarrow>
          (case generateStatements g1 thn of
             (Inl err, g2) \<Rightarrow> (Inl err, g2)
           | (Inr thenBlock, g2) \<Rightarrow>
               (case (if length els > 0 then generateStatements g2 els else (Inr [], g2)) of
                  (Inl err, g3) \<Rightarrow> (Inl err, g3)
                | (Inr elseBlock, g3) \<Rightarrow>
                    (Inr (''if '' @ condition @ '' {\<newline>'' @ thenBlock
                          @ (if elseBlock \<noteq> [] then ''} else {\<newline>'' @ elseBlock else [])
                          @ ''}''),
                     g3))))"
| "generateLoop g (Loop ty ini cond upd body isRange rangeVar rangeFrom rangeTo isForEach items) =
     (case generateStatements g body of
        (Inl err, g1) \<Rightarrow> (Inl err, g1)
      | (Inr body', g1) \<Rightarrow>
          (let block = '' {\<newline>'' @ TAB @ TAB @ body' @ ''\<newline>'' @ TAB @ ''}'' in
           if ty = ''for'' then
             (if isForEach then
                (Inr (''items := strings.Fields(\"'' @ items @ ''\")\<newline>'' @ TAB
                      @ ''for _, '' @ rangeVar @ '' := range items'' @ block),
                 insert ''strings'' g1)
              else if isRange then
                (Inr (''for '' @ rangeVar @ '' := '' @ rangeFrom @ ''; '' @ rangeVar @ '' <= ''
                      @ rangeTo @ ''; '' @ rangeVar @ ''++'' @ block), g1)
              else (Inr (''for'' @ block), g1))
           else if ty = ''while'' then
             (case generateCondition g1 cond ''command'' of
                (Inl err, g2) \<Rightarrow> (Inl err, g2)
              | (Inr condition, g2) \<Rightarrow> (Inr (''for '' @ condition @ block), g2))
           else if ty = ''until'' then
             (case generateCondition g1 cond ''command'' of
                (Inl err, g2) \<Rightarrow> (Inl err, g2)
              | (Inr condition, g2) \<Rightarrow> (Inr (''for !('' @ condition @ '')'' @ block), g2))
           else
             (Inr (''// Unsupported loop type: '' @ ty @ ''\<newline>'' @ TAB @ ''for'' @ block), g1)))"
| "generateSubshell g (Subshell statements) =
     (case generateStatements g statements of
        (Inl err, g1) \<Rightarrow> (Inl err, g1)
      | (Inr stmts, g1) \<Rightarrow>
          (Inr (''// Execute subshell\<newline>'' @ TAB @ ''func() {\<newline>'' @ TAB @ TAB @ stmts
                @ ''\<newline>'' @ TAB @ ''}()''),
           g1))"

section \<open>Assembling the source file\<close>

record CodeBuilder =
  buf :: string
  indentLevel :: nat
  indentStr :: string

definition NewCodeBuilder :: CodeBuilder where
  "NewCodeBuilder = \<lparr>buf = [], indentLevel = 0, indentStr = TAB\<rparr>"

definition WriteLine :: "CodeBuilder \<Rightarrow> string \<Rightarrow> CodeBuilder" where
  "WriteLine b line =
     b\<lparr>buf := buf b @ concat (replicate (indentLevel b) (indentStr b)) @ line @ ''\<newline>''\<rparr>"

definition Indent :: "CodeBuilder \<Rightarrow> CodeBuilder" where
  "Indent b = b\<lparr>indentLevel := indentLevel b + 1\<rparr>"

definition Outdent :: "CodeBuilder \<Rightarrow> CodeBuilder" where
  "Outdent b = (if indentLevel b > 0 then b\<lparr>indentLevel := indentLevel b - 1\<rparr> else b)"

record Parameter =
  Parameter_Name :: string
  Parameter_Type :: string

text \<open>\<open>GoFunction\<close> is the generator package's own \<^verbatim>\<open>Function\<close>, a Go function to emit.\<close>

record GoFunction =
  GoFunction_Name :: string
  GoFunction_Parameters :: "Parameter list"
  ReturnType :: string
  GoFunction_Body :: "string list"
  Comments :: "string list"

record CodeGenerator =
  packageName :: string
  imports_cg :: "string set"
  globals_cg :: "string list"
  functions_cg :: "GoFunction list"
  cb :: CodeBuilder

definition NewCodeGenerator :: "string \<Rightarrow> CodeGenerator" where
  "NewCodeGenerator pkg =
     \<lparr>packageName = pkg, imports_cg = {}, globals_cg = [], functions_cg = [], cb = NewCodeBuilder\<rparr>"

definition AddImport :: "CodeGenerator \<Rightarrow> string \<Rightarrow> CodeGenerator" where
  "AddImport cg pkg = cg\<lparr>imports_cg := insert pkg (imports_cg cg)\<rparr>"

definition AddGlobal :: "CodeGenerator \<Rightarrow> string \<Rightarrow> CodeGenerator" where
  "AddGlobal cg global = cg\<lparr>globals_cg := globals_cg cg @ [global]\<rparr>"

definition AddFunction :: "CodeGenerator \<Rightarrow> GoFunction \<Rightarrow> CodeGenerator" where
  "AddFunction cg fn = cg\<lparr>functions_cg := functions_cg cg @ [fn]\<rparr>"

definition write_function :: "CodeBuilder \<Rightarrow> GoFunction \<Rightarrow> CodeBuilder" where
  "write_function b fn =
     (let b = foldl (\<lambda>b comment. WriteLine b (''// '' @ comment)) b (Comments fn);
          params = map (\<lambda>p. Parameter_Name p @ '' '' @ Parameter_Type p) (GoFunction_Parameters fn);
          paramList = Join params '', '';
          signature = ''func '' @ GoFunction_Name fn @ ''('' @ paramList @ '')'';
          signature = (if ReturnType fn \<noteq> [] then signature @ '' '' @ ReturnType fn else signature);
          b = WriteLine b (signature @ '' {'');
          b = Indent b;
          b = foldl WriteLine b (GoFunction_Body fn);
          b = Outdent b;
          b = WriteLine b ''}''
      in WriteLine b [])"

text \<open>
  \<open>Build_source\<close> is \<open>Build\<close> up to its last line: the text in the builder's buffer.
  The keys of the import map are collected in the order the map yields them and then
  sorted, which is the sorted list of the key set whatever that order was.
\<close>

definition Build_source :: "CodeGenerator \<Rightarrow> string" where
  "Build_source cg =
     (let b = cb cg;
          b = WriteLine b (''package '' @ packageName cg);
          b = WriteLine b [];
          b = (if imports_cg cg \<noteq> {} then
                 (let b = WriteLine b ''import ('';
                      b = Indent b;
                      importKeys = sorted_list_of_set (imports_cg cg);
                      b = foldl (\<lambda>b imp. WriteLine b (quoted imp)) b importKeys;
                      b = Outdent b;
                      b = WriteLine b '')''
                  in WriteLine b [])
               else b);
          b = foldl WriteLine b (globals_cg cg);
          b = (if length (globals_cg cg) > 0 then WriteLine b [] else b);
          b = foldl write_function b (functions_cg cg)
      in buf b)"

text \<open>
  \<open>Format\<close> hands the buffer to the Go formatter \<^verbatim>\<open>format.Source\<close>, a function of the Go
  standard library that is a parameter here; when it fails, the unformatted text is
  returned beside the error.
\<close>

definition Format :: "(string \<Rightarrow> string + string) \<Rightarrow> string \<Rightarrow> string \<times> error option" where
  "Format format_Source src =
     (case format_Source src of
        Inl msg \<Rightarrow> (src, Some (Error (''failed to format generated code: '' @ msg)))
      | Inr formatted \<Rightarrow> (formatted, None))"

definition Build :: "(string \<Rightarrow> string + string) \<Rightarrow> CodeGenerator \<Rightarrow> string \<times> error option" where
  "Build format_Source cg = Format format_Source (Build_source cg)"

record IntermediateRepresentation =
  Variables :: "string \<rightharpoonup> string"
  Functions :: "string \<rightharpoonup> Function"
  MainStatements :: "Statement list"
  RequiredPackages :: "string \<rightharpoonup> bool"

text \<open>
  A \<^verbatim>\<open>range\<close> loop over a Go map yields every entry once, in an order the language leaves
  open and the runtime varies from one loop to the next. \<open>range_order m kvs\<close> says that
  \<open>kvs\<close> is one such enumeration of the map \<open>m\<close>.
\<close>

definition range_order :: "('k \<rightharpoonup> 'v) \<Rightarrow> ('k \<times> 'v) list \<Rightarrow> bool" where
  "range_order m kvs = (distinct (map fst kvs) \<and> map_of kvs = m)"

text \<open>The first loop of \<open>Generate\<close>: the imports that the main statements call for.\<close>

fun special_imports :: "Imports \<Rightarrow> Statement list \<Rightarrow> error + Imports" where
  "special_imports g [] = Inr g"
| "special_imports g (stmt # rest) =
     (if Type stmt = StatementCommand then
        (case Value stmt of
           V_Command cmd \<Rightarrow>
             (let g = (if UseGexe cmd then insert ''github.com/vladimirvivien/gexe'' g
                       else if \<not> IsBuiltin cmd then insert ''os/exec'' g else g);
                  g = (if Name cmd = ''echo'' then insert ''fmt'' g else g)
              in special_imports g rest)
         | _ \<Rightarrow> Inl type_assertion_panic)
      else if Type stmt = StatementPipe
      then special_imports (insert ''github.com/vladimirvivien/gexe'' g) rest
      else special_imports g rest)"

text \<open>The loop of \<open>Generate\<close> over the function table, in the order \<open>funs\<close> of the map.\<close>

fun add_functions ::
  "Imports \<Rightarrow> CodeGenerator \<Rightarrow> (string \<times> Function) list \<Rightarrow> error + (Imports \<times> CodeGenerator)" where
  "add_functions g cg [] = Inr (g, cg)"
| "add_functions g cg ((name, function) # rest) =
     (case generateStatements g (Function_Statements function) of
        (Inl err, g1) \<Rightarrow> Inl err
      | (Inr funcBody, g1) \<Rightarrow>
          (let bodyLines = Split funcBody ''\<newline>'';
               fn = \<lparr>GoFunction_Name = name, GoFunction_Parameters = [], ReturnType = [],
                     GoFunction_Body = bodyLines,
                     Comments = [''Function '' @ name @ '' from the original Bash script'']\<rparr>
           in add_functions g1 (AddFunction cg fn) rest))"

text \<open>
  \<open>Generate_codegen\<close> is \<open>Generate\<close> up to its last line: the code generator object that
  \<open>Build\<close> is called on. \<open>vars\<close> and \<open>funs\<close> are the orders in which the two \<^verbatim>\<open>range\<close>
  loops receive the variable and function maps. The imports are copied before any
  statement is generated, so what the statement generators record later does not reach
  the output.
\<close>

definition Generate_codegen ::
  "IntermediateRepresentation \<Rightarrow> (string \<times> string) list \<Rightarrow> (string \<times> Function) list
     \<Rightarrow> error + CodeGenerator" where
  "Generate_codegen ir vars funs =
     (case special_imports {} (MainStatements ir) of
        Inl err \<Rightarrow> Inl err
      | Inr g \<Rightarrow>
          (let cg = NewCodeGenerator ''main'';
               cg = cg\<lparr>imports_cg := imports_cg cg \<union> g\<rparr>;
               cg = foldl (\<lambda>cg (name, value). AddGlobal cg (''var '' @ name @ '' = '' @ value)) cg vars
           in case add_functions g cg funs of
                Inl err \<Rightarrow> Inl err
              | Inr (g1, cg) \<Rightarrow>
                  (case generateStatements g1 (MainStatements ir) of
                     (Inl err, g2) \<Rightarrow> Inl err
                   | (Inr mainBody, g2) \<Rightarrow>
                       (let mainLines = Split mainBody ''\<newline>'';
                            mainFn = \<lparr>GoFunction_Name = ''main'', GoFunction_Parameters = [],
                                       ReturnType = [], GoFunction_Body = mainLines,
                                       Comments = [''Main function generated from Bash script'']\<rparr>
                        in Inr (AddFunction cg mainFn)))))"

definition Generate ::
  "(string \<Rightarrow> string + string) \<Rightarrow> IntermediateRepresentation \<Rightarrow> (string \<times> string) list
     \<Rightarrow> (string \<times> Function) list \<Rightarrow> string \<times> error option" where
  "Generate format_Source ir vars funs =
     (case Generate_codegen ir vars funs of
        Inl err \<Rightarrow> ([], Some err)
      | Inr cg \<Rightarrow> Build format_Source cg)"

section \<open>Building the IR by walking the tree\<close>

text \<open>
  The loops that keep the call expressions of a statement list and wrap each one as a
  command statement (in the while, for and subshell cases).
\<close>

definition call_statements :: "Stmt list \<Rightarrow> Statement list" where
  "call_statements stmts =
     concat (map (\<lambda>stmt. case Cmd stmt of
                            Some (syntax_CallExpr c) \<Rightarrow>
                              [Statement StatementCommand (V_Command (processCallExpr c))]
                          | _ \<Rightarrow> []) stmts)"

definition processWhileClause :: "Stmt list \<Rightarrow> Stmt list \<Rightarrow> Loop" where
  "processWhileClause cond do =
     Loop ''while'' [] (call_statements cond) [] (call_statements do) False [] [] [] False []"

definition processForClause :: "bool \<Rightarrow> Stmt list \<Rightarrow> Loop" where
  "processForClause has_loop do =
     (if has_loop
      then Loop ''for'' [] [] [] (call_statements do) False ''i'' [] [] True ''items''
      else Loop ''for'' [] [] [] (call_statements do) False [] [] [] False [])"

definition processSubshell :: "Stmt list \<Rightarrow> Subshell" where
  "processSubshell stmts = Subshell (call_statements stmts)"

definition processRedirection :: "Redirect \<Rightarrow> Redirection" where
  "processRedirection x =
     \<lparr>Redirection_Op = Redirect_Op x,
      Redirection_Command = \<lparr>Name = [], Args = [], IsBuiltin = False, UseGexe = False\<rparr>,
      Filename = (case Redirect_Word x of None \<Rightarrow> [] | Some w \<Rightarrow> extractWordValue w)\<rparr>"

text \<open>
  \<^verbatim>\<open>syntax.Walk\<close> belongs to the parser library: it calls the visitor on the nodes of a
  tree. It is a parameter here, \<open>Walk root\<close> being the sequence of nodes on which the
  visitor is called for the tree under \<open>root\<close>. Both visitors return \<^verbatim>\<open>true\<close> on every
  node, so no part of the tree is skipped.
\<close>

fun function_step ::
  "Statement list \<times> (string \<rightharpoonup> string) \<Rightarrow> Node \<Rightarrow> Statement list \<times> (string \<rightharpoonup> string)" where
  "function_step (stmts, vars) (Node_CallExpr y) =
     (stmts @ [Statement StatementCommand (V_Command (processCallExpr y))], vars)"
| "function_step (stmts, vars) (Node_Assign y) =
     (let assign = processAssign y
      in (stmts @ [Statement StatementAssignment (V_Assignment assign)],
          vars(Assignment_Name assign \<mapsto> Assignment_Value assign)))"
| "function_step (stmts, vars) _ = (stmts, vars)"

definition processFunction :: "(Node \<Rightarrow> Node list) \<Rightarrow> string \<Rightarrow> Stmt option \<Rightarrow> Function" where
  "processFunction Walk name body =
     (case body of
        None \<Rightarrow> Function name [] [] Map.empty
      | Some b \<Rightarrow>
          (let (stmts, vars) = foldl function_step ([], Map.empty) (Walk (Node_Stmt b))
           in Function name stmts [] vars))"


definition append_statement :: "IntermediateRepresentation \<Rightarrow> Statement \<Rightarrow> IntermediateRepresentation" where
  "append_statement ir stmt = ir\<lparr>MainStatements := MainStatements ir @ [stmt]\<rparr>"

text \<open>The visitor of \<open>BuildIR\<close>: the switch over the type of the node.\<close>

fun visit :: "(Node \<Rightarrow> Node list) \<Rightarrow> IntermediateRepresentation \<Rightarrow> Node \<Rightarrow> IntermediateRepresentation" where
  "visit Walk ir (Node_CallExpr x) =
     append_statement ir (Statement StatementCommand (V_Command (processCallExpr x)))"
| "visit Walk ir (Node_Assign x) =
     (let assign = processAssign x;
          ir = ir\<lparr>Variables := (Variables ir)(Assignment_Name assign \<mapsto> Assignment_Value assign)\<rparr>
      in append_statement ir (Statement StatementAssignment (V_Assignment assign)))"
| "visit Walk ir (Node_FuncDecl name body) =
     (let function = processFunction Walk name body;
          ir = ir\<lparr>Functions := (Functions ir)(Function_Name function \<mapsto> function)\<rparr>
      in append_statement ir (Statement StatementFunction (V_Function function)))"
| "visit Walk ir (Node_IfClause x) =
     append_statement ir (Statement StatementIf (V_If (processIfClause x)))"
| "visit Walk ir (Node_WhileClause cond do) =
     append_statement ir (Statement StatementLoop (V_Loop (processWhileClause cond do)))"
| "visit Walk ir (Node_ForClause has_loop do) =
     append_statement ir (Statement StatementLoop (V_Loop (processForClause has_loop do)))"
| "visit Walk ir (Node_BinaryCmd x) =
     (if Op x = Pipe
      then append_statement ir (Statement StatementPipe (V_Pipe (processPipe x)))
      else ir)"
| "visit Walk ir (Node_Subshell stmts) =
     append_statement ir (Statement StatementSubshell (V_Subshell (processSubshell stmts)))"
| "visit Walk ir (Node_Redirect x) =
     append_statement ir (Statement StatementRedirection (V_Redirection (processRedirection x)))"
| "visit Walk ir _ = ir"


section \<open>The first IR builder\<close>

text \<open>
  \<open>processCommand\<close> belongs to the builder's first version, whose commands have a name
  and arguments only. Its call-expression case reads the first part of each word;
  \<open>fmt_v\<close> is Go's \<^verbatim>\<open>%v\<close> formatting of a word part of any other kind.
\<close>

record Command_v1 =
  Name_v1 :: string
  Args_v1 :: "string list"

datatype Statement_v1 = Statement_v1 (Type_v1: int) (Value_v1: Payload_v1)
and Payload_v1 =
    V1_Command Command_v1
  | V1_Assignment string string
  | V1_If "Statement_v1 list" "Statement_v1 list" "Statement_v1 list"
      "(Statement_v1 list \<times> Statement_v1 list) list"
  | V1_Loop string "Statement_v1 list" "Statement_v1 list" "Statement_v1 list"
  | V1_Pipe "Command_v1 list"
  | V1_Subshell "Statement_v1 list"
  | V1_nil




text \<open>
  \<open>VisitNode\<close> of the first builder: a file passes each of its statements to
  \<open>VisitNode\<close> and stops at the first error; a statement passes its command to
  \<open>processCommand\<close>; a node of any other type does nothing. The IR is updated in place,
  so the function returns it beside the error.
\<close>

record Function_v1 =
  Function_v1_Name :: string
  Function_v1_Statements :: "Statement_v1 list"






section \<open>The first code generator\<close>















section \<open>Vocabulary of the statements below\<close>

text \<open>
  Predicates on the statements of a condition list: \<open>is_test_call\<close> holds of a call of
  \<^verbatim>\<open>test\<close> or \<^verbatim>\<open>[\<close>; \<open>infers_nothing\<close> holds of a statement from which no category is
  to be inferred, that is anything but a call of \<^verbatim>\<open>test\<close> or \<^verbatim>\<open>[\<close>, such a call with fewer
  than two arguments, and such a call whose first argument is none of the thirteen
  operators the condition categories are defined on and whose second argument is none of
  the eight comparison operators.
\<close>

definition is_test_call :: "Stmt \<Rightarrow> bool" where
  "is_test_call s =
     (case Cmd s of
        Some (syntax_CallExpr call) \<Rightarrow>
          Name (processCallExpr call) = ''test'' \<or> Name (processCallExpr call) = ''[''
      | _ \<Rightarrow> False)"

definition listed_operators :: "string list" where
  "listed_operators =
     [''-f'', ''-d'', ''-e'', ''-z'', ''-n'', ''='', ''!='',
      ''-eq'', ''-ne'', ''-lt'', ''-le'', ''-gt'', ''-ge'']"

definition comparison_operators :: "string list" where
  "comparison_operators = [''='', ''!='', ''-eq'', ''-ne'', ''-lt'', ''-le'', ''-gt'', ''-ge'']"

definition infers_nothing :: "Stmt \<Rightarrow> bool" where
  "infers_nothing s =
     (case Cmd s of
        Some (syntax_CallExpr call) \<Rightarrow>
          (let cmd = processCallExpr call in
           \<not> (Name cmd = ''test'' \<or> Name cmd = ''['')
           \<or> length (Args cmd) < 2
           \<or> (Args cmd ! 0 \<notin> set listed_operators \<and> Args cmd ! 1 \<notin> set comparison_operators))
      | _ \<Rightarrow> True)"



text \<open>
  The builtin table as the specification words it; \<open>processCallExpr\<close> is compared
  with it below.
\<close>

definition spec_builtin_names :: "string list" where
  "spec_builtin_names =
     [''echo'', ''cd'', ''pwd'', ''mkdir'', ''rm'', ''cp'', ''test'', ''['', ''exit'',
      ''export'', ''read'', ''source'']"

section \<open>Builtin classification\<close>

lemma processCallExpr_Name:
  "Name (processCallExpr x) =
     (if CallExpr_Args x = [] then [] else extractWordValue (hd (CallExpr_Args x)))"
  by (cases "CallExpr_Args x") (simp_all add: processCallExpr_def Let_def)

lemma processCallExpr_Args:
  "Args (processCallExpr x) = map extractWordValue (tl (CallExpr_Args x))"
  by (cases "CallExpr_Args x") (simp_all add: processCallExpr_def Let_def drop_Suc)

text \<open>
  C5 (as the code has it): a simple command whose name is not mkdir, rm or cp is
  classified as a builtin exactly when its name, the value of its first word, is one of
  echo, printf, cd, pwd, exit, return, test, [, source, export, read, and as an
  external-process invocation that goes through the process-execution helper otherwise.
\<close>

theorem processCallExpr_classification:
  assumes "Name (processCallExpr x) \<notin> {''mkdir'', ''rm'', ''cp''}"
  shows "Name (processCallExpr x) =
           (if CallExpr_Args x = [] then [] else extractWordValue (hd (CallExpr_Args x)))
         \<and> IsBuiltin (processCallExpr x) =
             (Name (processCallExpr x) \<in>
                {''echo'', ''printf'', ''cd'', ''pwd'', ''exit'', ''return'', ''test'', ''['',
                 ''source'', ''export'', ''read''})
         \<and> UseGexe (processCallExpr x) = (\<not> IsBuiltin (processCallExpr x))"
  by (cases "CallExpr_Args x") (simp_all add: processCallExpr_def Let_def builtin_names_def)

theorem processCallExpr_classification_witness:
  "Name (processCallExpr
      \<lparr>Assigns = [], CallExpr_Args = [Word [Lit ''return''], Word [Lit ''1'']]\<rparr>)
     \<notin> {''mkdir'', ''rm'', ''cp''}
   \<and> IsBuiltin (processCallExpr
      \<lparr>Assigns = [], CallExpr_Args = [Word [Lit ''return''], Word [Lit ''1'']]\<rparr>)
   \<and> Name (processCallExpr
      \<lparr>Assigns = [], CallExpr_Args = [Word [Lit ''ls''], Word [Lit ''-la'']]\<rparr>)
     \<notin> {''mkdir'', ''rm'', ''cp''}
   \<and> \<not> IsBuiltin (processCallExpr
      \<lparr>Assigns = [], CallExpr_Args = [Word [Lit ''ls''], Word [Lit ''-la'']]\<rparr>)"
proof -
  have r: "Name (processCallExpr
      \<lparr>Assigns = [], CallExpr_Args = [Word [Lit ''return''], Word [Lit ''1'']]\<rparr>)
     \<notin> {''mkdir'', ''rm'', ''cp''}"
    by (simp add: processCallExpr_Name extractWordValue_def)
  have l: "Name (processCallExpr
      \<lparr>Assigns = [], CallExpr_Args = [Word [Lit ''ls''], Word [Lit ''-la'']]\<rparr>)
     \<notin> {''mkdir'', ''rm'', ''cp''}"
    by (simp add: processCallExpr_Name extractWordValue_def)
  show ?thesis
    using r l processCallExpr_classification [OF r] processCallExpr_classification [OF l]
    by (simp add: extractWordValue_def)
qed

text \<open>
  C5 (as the specification states it) fails in both directions: \<^verbatim>\<open>printf x\<close> is not in
  the specification's builtin table and the builder classifies it as a builtin;
  \<^verbatim>\<open>mkdir build\<close> is in that table and the builder classifies it as external.
\<close>

theorem processCallExpr_differs_from_spec_table:
  "Name (processCallExpr
      \<lparr>Assigns = [], CallExpr_Args = [Word [Lit ''printf''], Word [Lit ''x'']]\<rparr>)
     \<notin> set spec_builtin_names
   \<and> IsBuiltin (processCallExpr
      \<lparr>Assigns = [], CallExpr_Args = [Word [Lit ''printf''], Word [Lit ''x'']]\<rparr>)
   \<and> Name (processCallExpr
      \<lparr>Assigns = [], CallExpr_Args = [Word [Lit ''mkdir''], Word [Lit ''build'']]\<rparr>)
     \<in> set spec_builtin_names
   \<and> \<not> IsBuiltin (processCallExpr
      \<lparr>Assigns = [], CallExpr_Args = [Word [Lit ''mkdir''], Word [Lit ''build'']]\<rparr>)"
  by (simp add: processCallExpr_def Let_def builtin_names_def spec_builtin_names_def
      extractWordValue_def)

section \<open>Condition-type inference\<close>

lemma then_step_keeps:
  "Condition (then_step i s) = Condition i \<and> ConditionType (then_step i s) = ConditionType i
   \<and> ElseBlock (then_step i s) = ElseBlock i \<and> ElifBlocks (then_step i s) = ElifBlocks i"
  by (induction i s rule: then_step.induct) simp_all

lemma foldl_then_step_keeps:
  "Condition (foldl then_step i ss) = Condition i
   \<and> ConditionType (foldl then_step i ss) = ConditionType i
   \<and> ElseBlock (foldl then_step i ss) = ElseBlock i
   \<and> ElifBlocks (foldl then_step i ss) = ElifBlocks i"
  by (induction ss arbitrary: i) (simp_all add: then_step_keeps)

lemma cond_step_keeps:
  "ThenBlock (cond_step i s) = ThenBlock i \<and> ElseBlock (cond_step i s) = ElseBlock i
   \<and> ElifBlocks (cond_step i s) = ElifBlocks i"
  by (induction i s rule: cond_step.induct) (simp_all add: Let_def)

lemma foldl_cond_step_keeps:
  "ThenBlock (foldl cond_step i ss) = ThenBlock i \<and> ElseBlock (foldl cond_step i ss) = ElseBlock i
   \<and> ElifBlocks (foldl cond_step i ss) = ElifBlocks i"
  by (induction ss arbitrary: i) (simp_all add: cond_step_keeps)

lemma append_elif_sel:
  "Condition (append_elif i e) = Condition i \<and> ThenBlock (append_elif i e) = ThenBlock i
   \<and> ElseBlock (append_elif i e) = ElseBlock i
   \<and> ConditionType (append_elif i e) = ConditionType i
   \<and> ElifBlocks (append_elif i e) = ElifBlocks i @ [(Condition e, ThenBlock e)]"
  by (cases i) simp

lemma condition_type_of_command:
  "condition_type_of a ''command'' = spec_condition_category a"
  by (simp add: condition_type_of_def spec_condition_category_def)

lemma ConditionType_processIfClause:
  "ConditionType (processIfClause (IfClause cond thn els)) =
     ConditionType (foldl cond_step (If_ir [] [] [] [] ''command'') cond)"
  by (cases els) (simp_all add: Let_def append_elif_sel foldl_then_step_keeps)

lemma condition_type_of_unary:
  "a \<in> {''-f'', ''-d'', ''-e'', ''-z'', ''-n''} \<Longrightarrow> condition_type_of a ct = spec_condition_category a"
  by (auto simp add: condition_type_of_def spec_condition_category_def)

lemma condition_type_of_unlisted:
  "a \<notin> set listed_operators \<Longrightarrow> condition_type_of a ct = ct"
  by (simp add: condition_type_of_def listed_operators_def)

lemma cond_step_test_call:
  assumes "Name (processCallExpr call) = ''test'' \<or> Name (processCallExpr call) = ''[''"
    and "2 \<le> length (Args (processCallExpr call))"
  shows "ConditionType (cond_step i (Stmt (Some (syntax_CallExpr call))))
           = condition_type_of (Args (processCallExpr call) ! 0) (ConditionType i)"
  using assms by (cases i) (auto simp add: Let_def)

lemma cond_step_not_test_call:
  "\<not> is_test_call s \<Longrightarrow> ConditionType (cond_step i s) = ConditionType i"
  by (induction i s rule: cond_step.induct) (auto simp add: is_test_call_def Let_def)

lemma foldl_cond_step_not_test_call:
  "\<forall>s \<in> set ss. \<not> is_test_call s \<Longrightarrow> ConditionType (foldl cond_step i ss) = ConditionType i"
  by (induction ss arbitrary: i) (simp_all add: cond_step_not_test_call)

lemma cond_step_infers_nothing:
  "infers_nothing s \<Longrightarrow> ConditionType (cond_step i s) = ConditionType i"
  by (induction i s rule: cond_step.induct)
     (auto simp add: infers_nothing_def Let_def condition_type_of_unlisted)

lemma foldl_cond_step_infers_nothing:
  "\<forall>s \<in> set ss. infers_nothing s \<Longrightarrow> ConditionType (foldl cond_step i ss) = ConditionType i"
  by (induction ss arbitrary: i) (simp_all add: cond_step_infers_nothing)

text \<open>
  C7 (as the code has it): take a \<^verbatim>\<open>test\<close> or \<^verbatim>\<open>[\<close> command in the condition list of an if
  clause that has at least two arguments (a closing \<^verbatim>\<open>]\<close> is one of them), whose operator
  is its first argument, one of the unary operators -f, -d, -e, -z, -n with no comparison
  operator after it, and that is followed in the list only by statements that set no
  category. The condition category of the clause is then the one the specification
  gives for that operator: file for -f, -d and -e, string for -z and -n. The statements
  that set no category are those that are no \<^verbatim>\<open>test\<close> or \<^verbatim>\<open>[\<close> command, a \<^verbatim>\<open>test\<close> or \<^verbatim>\<open>[\<close>
  command with fewer than two arguments, and one whose first argument is none of the
  thirteen listed operators and whose second is no comparison operator: a condition list
  of such statements only has the category command. Nothing is said of the comparisons,
  whose operator is the second argument.
\<close>

theorem processIfClause_condition_category:
  "(is_test_call (Stmt (Some (syntax_CallExpr call)))
      \<and> 2 \<le> length (Args (processCallExpr call))
      \<and> Args (processCallExpr call) ! 0 \<in> {''-f'', ''-d'', ''-e'', ''-z'', ''-n''}
      \<and> Args (processCallExpr call) ! 1 \<notin> set comparison_operators
      \<and> (\<forall>s \<in> set post. infers_nothing s)
    \<longrightarrow> ConditionType (processIfClause
          (IfClause (pre @ Stmt (Some (syntax_CallExpr call)) # post) thn els))
        = spec_condition_category (Args (processCallExpr call) ! 0))
   \<and> ((\<forall>s \<in> set cond. infers_nothing s)
    \<longrightarrow> ConditionType (processIfClause (IfClause cond thn els)) = ''command'')"
proof (intro conjI impI)
  assume a: "is_test_call (Stmt (Some (syntax_CallExpr call)))
      \<and> 2 \<le> length (Args (processCallExpr call))
      \<and> Args (processCallExpr call) ! 0 \<in> {''-f'', ''-d'', ''-e'', ''-z'', ''-n''}
      \<and> Args (processCallExpr call) ! 1 \<notin> set comparison_operators
      \<and> (\<forall>s \<in> set post. infers_nothing s)"
  then have t: "Name (processCallExpr call) = ''test'' \<or> Name (processCallExpr call) = ''[''"
    by (simp add: is_test_call_def)
  have "ConditionType (processIfClause
          (IfClause (pre @ Stmt (Some (syntax_CallExpr call)) # post) thn els))
        = ConditionType (foldl cond_step
            (cond_step (foldl cond_step (If_ir [] [] [] [] ''command'') pre)
               (Stmt (Some (syntax_CallExpr call)))) post)"
    unfolding ConditionType_processIfClause by simp
  also have "\<dots> = ConditionType
            (cond_step (foldl cond_step (If_ir [] [] [] [] ''command'') pre)
               (Stmt (Some (syntax_CallExpr call))))"
    using a by (simp add: foldl_cond_step_infers_nothing)
  also have "\<dots> = spec_condition_category (Args (processCallExpr call) ! 0)"
    using a t by (simp add: cond_step_test_call condition_type_of_unary)
  finally show "ConditionType (processIfClause
          (IfClause (pre @ Stmt (Some (syntax_CallExpr call)) # post) thn els))
        = spec_condition_category (Args (processCallExpr call) ! 0)" .
next
  assume "\<forall>s \<in> set cond. infers_nothing s"
  then show "ConditionType (processIfClause (IfClause cond thn els)) = ''command''"
    unfolding ConditionType_processIfClause by (simp add: foldl_cond_step_infers_nothing)
qed

theorem processIfClause_condition_category_witness:
  "ConditionType (processIfClause (IfClause
      [Stmt (Some (syntax_CallExpr
         \<lparr>Assigns = [],
            CallExpr_Args = [Word [Lit ''[''], Word [Lit ''-f''], Word [DblQuoted [Lit ''go.mod'']],
                             Word [Lit '']'']]\<rparr>)),
       Stmt (Some (syntax_CallExpr
         \<lparr>Assigns = [], CallExpr_Args = [Word [Lit ''test''], Word [Lit ''-f'']]\<rparr>))]
      [Stmt (Some (syntax_CallExpr
         \<lparr>Assigns = [],
            CallExpr_Args = [Word [Lit ''echo''], Word [DblQuoted [Lit ''exists'']]]\<rparr>))]
      (Some (IfClause []
         [Stmt (Some (syntax_CallExpr
            \<lparr>Assigns = [],
               CallExpr_Args = [Word [Lit ''echo''], Word [DblQuoted [Lit ''missing'']]]\<rparr>))]
         None))))
   = ''file''
   \<and> ConditionType (processIfClause (IfClause
        [Stmt (Some (syntax_CallExpr
           \<lparr>Assigns = [], CallExpr_Args = [Word [Lit ''test''], Word [Lit ''-f'']]\<rparr>))] [] None))
   = ''command''"
proof -
  let ?call = "\<lparr>Assigns = [],
            CallExpr_Args = [Word [Lit ''[''], Word [Lit ''-f''], Word [DblQuoted [Lit ''go.mod'']],
                             Word [Lit '']'']]\<rparr>"
  let ?one = "Stmt (Some (syntax_CallExpr
           \<lparr>Assigns = [], CallExpr_Args = [Word [Lit ''test''], Word [Lit ''-f'']]\<rparr>))"
  have k: "\<forall>s \<in> set [?one]. infers_nothing s"
    by (simp add: infers_nothing_def processCallExpr_def extractWordValue_def builtin_names_def
          Let_def)
  have h: "is_test_call (Stmt (Some (syntax_CallExpr ?call)))
      \<and> 2 \<le> length (Args (processCallExpr ?call))
      \<and> Args (processCallExpr ?call) ! 0 \<in> {''-f'', ''-d'', ''-e'', ''-z'', ''-n''}
      \<and> Args (processCallExpr ?call) ! 1 \<notin> set comparison_operators
      \<and> (\<forall>s \<in> set [?one]. infers_nothing s)"
    using k
    by (simp add: is_test_call_def processCallExpr_def extractWordValue_def
          extractDblQuotedValue_def builtin_names_def comparison_operators_def Let_def)
  have c: "spec_condition_category (Args (processCallExpr ?call) ! 0) = ''file''"
    by (simp add: processCallExpr_def extractWordValue_def builtin_names_def
          spec_condition_category_def Let_def)
  from processIfClause_condition_category [where call = ?call and pre = "[]" and post = "[?one]"] h
  have "ConditionType (processIfClause
          (IfClause ([] @ Stmt (Some (syntax_CallExpr ?call)) # [?one])
             [Stmt (Some (syntax_CallExpr
                \<lparr>Assigns = [],
                   CallExpr_Args = [Word [Lit ''echo''], Word [DblQuoted [Lit ''exists'']]]\<rparr>))]
             (Some (IfClause []
                [Stmt (Some (syntax_CallExpr
                   \<lparr>Assigns = [],
                      CallExpr_Args = [Word [Lit ''echo''], Word [DblQuoted [Lit ''missing'']]]\<rparr>))]
                None))))
        = spec_condition_category (Args (processCallExpr ?call) ! 0)"
    by blast
  moreover from processIfClause_condition_category [where cond = "[?one]"] k
  have "ConditionType (processIfClause (IfClause [?one] [] None)) = ''command''"
    by blast
  ultimately show ?thesis using c by (simp only: append_Nil)
qed

text \<open>
  C7 (as the specification states it) fails: in \<^verbatim>\<open>if test -f; then ... fi\<close> the test
  command has the one argument -f, for which the specification gives the file category,
  and the builder infers the command category; and in \<^verbatim>\<open>if [ -f a ]; [ -n b ]; then ... fi\<close>
  the clause has one category for two test commands, string, which is not the file
  category of the first command.
\<close>

theorem processIfClause_test_one_argument:
  "spec_condition_category ''-f'' = ''file''
   \<and> Condition (processIfClause (IfClause
        [Stmt (Some (syntax_CallExpr
           \<lparr>Assigns = [], CallExpr_Args = [Word [Lit ''test''], Word [Lit ''-f'']]\<rparr>))] [] None))
     = [Statement StatementCommand
          (V_Command \<lparr>Name = ''test'', Args = [''-f''], IsBuiltin = True, UseGexe = False\<rparr>)]
   \<and> ConditionType (processIfClause (IfClause
        [Stmt (Some (syntax_CallExpr
           \<lparr>Assigns = [], CallExpr_Args = [Word [Lit ''test''], Word [Lit ''-f'']]\<rparr>))] [] None))
     = ''command''
   \<and> ConditionType (processIfClause (IfClause
        [Stmt (Some (syntax_CallExpr
           \<lparr>Assigns = [],
              CallExpr_Args = [Word [Lit ''[''], Word [Lit ''-f''], Word [Lit ''a''], Word [Lit '']'']]\<rparr>)),
         Stmt (Some (syntax_CallExpr
           \<lparr>Assigns = [],
              CallExpr_Args = [Word [Lit ''[''], Word [Lit ''-n''], Word [Lit ''b''], Word [Lit '']'']]\<rparr>))]
        [] None))
     = ''string''"
  by (simp add: spec_condition_category_def condition_type_of_def processCallExpr_def
      extractWordValue_def builtin_names_def Let_def)

section \<open>Elif chains\<close>

lemma ElifBlocks_processIfClause:
  "length (ElifBlocks (processIfClause x)) = (case Else x of None \<Rightarrow> 0 | Some e \<Rightarrow> 1)"
  by (cases x; cases "Else x")
     (simp_all add: Let_def append_elif_sel foldl_then_step_keeps foldl_cond_step_keeps)

lemma ElseBlock_processIfClause: "ElseBlock (processIfClause x) = []"
  by (cases x; cases "Else x")
     (simp_all add: Let_def append_elif_sel foldl_then_step_keeps foldl_cond_step_keeps)

text \<open>
  C3 fails on the chain
  \<^verbatim>\<open>if a; then echo 0; elif b; then echo 1; elif c; then echo 2; else echo 3; fi\<close>
  with two elif clauses: the builder keeps one elif pair, the one for \<^verbatim>\<open>b\<close>, drops the
  clause for \<^verbatim>\<open>c\<close> and the trailing else branch, and the generator emits the first
  branch only, with no else-if.
\<close>

theorem processIfClause_two_elifs:
  "processIfClause
     (IfClause
        [Stmt (Some (syntax_CallExpr \<lparr>Assigns = [], CallExpr_Args = [Word [Lit ''a'']]\<rparr>))]
        [Stmt (Some (syntax_CallExpr
           \<lparr>Assigns = [], CallExpr_Args = [Word [Lit ''echo''], Word [Lit ''0'']]\<rparr>))]
        (Some (IfClause
           [Stmt (Some (syntax_CallExpr \<lparr>Assigns = [], CallExpr_Args = [Word [Lit ''b'']]\<rparr>))]
           [Stmt (Some (syntax_CallExpr
              \<lparr>Assigns = [], CallExpr_Args = [Word [Lit ''echo''], Word [Lit ''1'']]\<rparr>))]
           (Some (IfClause
              [Stmt (Some (syntax_CallExpr \<lparr>Assigns = [], CallExpr_Args = [Word [Lit ''c'']]\<rparr>))]
              [Stmt (Some (syntax_CallExpr
                 \<lparr>Assigns = [], CallExpr_Args = [Word [Lit ''echo''], Word [Lit ''2'']]\<rparr>))]
              (Some (IfClause
                 []
                 [Stmt (Some (syntax_CallExpr
                    \<lparr>Assigns = [], CallExpr_Args = [Word [Lit ''echo''], Word [Lit ''3'']]\<rparr>))]
                 None)))))))
   = If_ir
       [Statement StatementCommand
          (V_Command \<lparr>Name = ''a'', Args = [], IsBuiltin = False, UseGexe = True\<rparr>)]
       [Statement StatementCommand
          (V_Command \<lparr>Name = ''echo'', Args = [''0''], IsBuiltin = True, UseGexe = False\<rparr>)]
       []
       [([Statement StatementCommand
            (V_Command \<lparr>Name = ''b'', Args = [], IsBuiltin = False, UseGexe = True\<rparr>)],
         [Statement StatementCommand
            (V_Command \<lparr>Name = ''echo'', Args = [''1''], IsBuiltin = True, UseGexe = False\<rparr>)])]
       ''command''
   \<and> fst (generateIf {} (If_ir
       [Statement StatementCommand
          (V_Command \<lparr>Name = ''a'', Args = [], IsBuiltin = False, UseGexe = True\<rparr>)]
       [Statement StatementCommand
          (V_Command \<lparr>Name = ''echo'', Args = [''0''], IsBuiltin = True, UseGexe = False\<rparr>)]
       []
       [([Statement StatementCommand
            (V_Command \<lparr>Name = ''b'', Args = [], IsBuiltin = False, UseGexe = True\<rparr>)],
         [Statement StatementCommand
            (V_Command \<lparr>Name = ''echo'', Args = [''1''], IsBuiltin = True, UseGexe = False\<rparr>)])]
       ''command''))
     = Inr ''if exe.Run(\"a\").Success() {\<newline>fmt.Println(\"0\")\<newline>}''"
  by (simp add: processCallExpr_def extractWordValue_def builtin_names_def Let_def
      StatementType_defs generateCondition_def test_condition_def generateCommand_def
      echo_arg_def HasPrefix_def HasSuffix_def quoted_def)

section \<open>Pipe flattening\<close>

lemma flattenPipe_Stmt_length: "length (flattenPipe (Node_Stmt s)) \<le> 1"
  by (cases s) (simp split: option.split syntax_Command.split)

lemma flattenPipe_BinaryCmd_length: "length (flattenPipe (Node_BinaryCmd b)) \<le> 2"
proof (cases b)
  case (BinaryCmd op x y)
  have "length (flattenPipe (Node_Stmt x)) \<le> 1" "length (flattenPipe (Node_Stmt y)) \<le> 1"
    by (rule flattenPipe_Stmt_length)+
  with BinaryCmd show ?thesis by simp
qed

text \<open>
  C4 fails on \<^verbatim>\<open>ls -la | grep ".sh" | wc -l\<close>, two pipe operators nested to the left:
  the left operand is a statement that holds a binary command, the statement case of
  \<open>flattenPipe\<close> looks for a call expression only, and the result is the one command
  \<^verbatim>\<open>wc -l\<close> instead of the three commands in source order.
\<close>

theorem flattenPipe_three_stages:
  "flattenPipe (Node_BinaryCmd (BinaryCmd Pipe
     (Stmt (Some (syntax_BinaryCmd (BinaryCmd Pipe
        (Stmt (Some (syntax_CallExpr
           \<lparr>Assigns = [], CallExpr_Args = [Word [Lit ''ls''], Word [Lit ''-la'']]\<rparr>)))
        (Stmt (Some (syntax_CallExpr
           \<lparr>Assigns = [], CallExpr_Args = [Word [Lit ''grep''], Word [DblQuoted [Lit ''.sh'']]]\<rparr>)))))))
     (Stmt (Some (syntax_CallExpr
        \<lparr>Assigns = [], CallExpr_Args = [Word [Lit ''wc''], Word [Lit ''-l'']]\<rparr>)))))
   = [\<lparr>Name = ''wc'', Args = [''-l''], IsBuiltin = False, UseGexe = True\<rparr>]"
  by (simp add: processCallExpr_def extractWordValue_def builtin_names_def Let_def)

section \<open>Assignment and echo with a variable\<close>

text \<open>
  C6 fails on \<^verbatim>\<open>NAME="World"\<close> followed by \<^verbatim>\<open>echo "Hello, $NAME!"\<close>: word extraction
  drops the double quotes, so the assignment is lowered to \<^verbatim>\<open>NAME := World\<close>, with no
  string literal, and the echo argument reaches the generator as \<^verbatim>\<open>Hello, ${NAME}!\<close>,
  which it quotes whole: the print call gets one literal and no concatenation. The
  generator's splicing is reached only by an argument that still has its quotes, as the
  last conjunct shows.
\<close>

theorem hello_name_lowering:
  "processAssign \<lparr>Assign_Name = ''NAME'', Assign_Append = False,
                   Assign_Value = Some (Word [DblQuoted [Lit ''World'']])\<rparr>
     = \<lparr>Assignment_Name = ''NAME'', Assignment_Value = ''World'', IsLocal = False, IsExport = False\<rparr>
   \<and> fst (generateAssignment {}
        (processAssign \<lparr>Assign_Name = ''NAME'', Assign_Append = False,
                         Assign_Value = Some (Word [DblQuoted [Lit ''World'']])\<rparr>))
     = Inr ''NAME := World''
   \<and> processCallExpr
        \<lparr>Assigns = [],
           CallExpr_Args = [Word [Lit ''echo''],
                            Word [DblQuoted [Lit ''Hello, '', ParamExp ''NAME'', Lit ''!'']]]\<rparr>
     = \<lparr>Name = ''echo'', Args = [''Hello, ${NAME}!''], IsBuiltin = True, UseGexe = False\<rparr>
   \<and> fst (generateCommand {}
        (processCallExpr
           \<lparr>Assigns = [],
              CallExpr_Args = [Word [Lit ''echo''],
                               Word [DblQuoted [Lit ''Hello, '', ParamExp ''NAME'', Lit ''!'']]]\<rparr>))
     = Inr ''fmt.Println(\"Hello, ${NAME}!\")''
   \<and> fst (generateCommand {}
        \<lparr>Name = ''echo'', Args = [''\"Hello, $NAME!\"''], IsBuiltin = True, UseGexe = False\<rparr>)
     = Inr ''fmt.Println(\"Hello, \" + NAME + \"!\")''"
  by code_simp

section \<open>Subshells\<close>

text \<open>
  C8: for the subshell \<^verbatim>\<open>(cd /tmp)\<close> followed by \<^verbatim>\<open>pwd\<close> the generator emits a function
  literal, called at once, whose body is the call \<^verbatim>\<open>os.Chdir("/tmp")\<close>, and after it the
  query \<^verbatim>\<open>os.Getwd()\<close>. Nothing in the emitted text saves the directory before the
  function literal or restores it after.
\<close>

theorem generateSubshell_cd:
  "generateStatements {}
     [Statement StatementSubshell (V_Subshell (Subshell
        [Statement StatementCommand
           (V_Command \<lparr>Name = ''cd'', Args = [''/tmp''], IsBuiltin = True, UseGexe = False\<rparr>)])),
      Statement StatementCommand
        (V_Command \<lparr>Name = ''pwd'', Args = [], IsBuiltin = True, UseGexe = False\<rparr>)]
   = (Inr (''// Execute subshell\<newline>'' @ TAB @ ''func() {\<newline>'' @ TAB @ TAB
           @ ''err = os.Chdir(\"/tmp\")\<newline>\<newline>'' @ TAB @ ''}()\<newline>''
           @ ''dir, err := os.Getwd()\<newline>'' @ TAB @ ''if err != nil {\<newline>'' @ TAB @ TAB
           @ ''return err\<newline>'' @ TAB @ ''}\<newline>'' @ TAB @ ''fmt.Println(dir)\<newline>''),
      {''os''})"
  by (simp add: StatementType_defs generateCommand_def HasPrefix_def)

section \<open>Directory creation and the warning lines\<close>

lemma generateCommand_mkdir:
  assumes "Name cmd = ''mkdir''" and "Args cmd = a # as"
  shows "fst (generateCommand g cmd) =
           Inr (''err = os.MkdirAll('' @ (if HasPrefix a ''$'' then TrimPrefix a ''$'' else quoted a)
                @ '', 0755)'')"
  using assms by (simp add: generateCommand_def quoted_def)

text \<open>
  C9 fails on \<^verbatim>\<open>mkdir -p build\<close>: the directory-create call is emitted for the first
  argument, \<^verbatim>\<open>-p\<close>, not for the final one.
\<close>

theorem generateCommand_mkdir_first_argument:
  "fst (generateCommand g
          \<lparr>Name = ''mkdir'', Args = [''-p'', ''build''], IsBuiltin = False, UseGexe = True\<rparr>)
     = Inr ''err = os.MkdirAll(\"-p\", 0755)''"
  by (simp add: generateCommand_def HasPrefix_def)

text \<open>
  C10: for \<^verbatim>\<open>rm\<close> or \<^verbatim>\<open>mkdir\<close> without arguments, and for \<^verbatim>\<open>cp\<close> with fewer than two,
  \<open>generateCommand\<close> returns without error a warning comment as the code, and a statement
  list that holds such a command is generated without error, with the comment line in
  place of an operation.
\<close>

theorem generateCommand_warning_comment:
  "(Name cmd = ''rm'' \<and> Args cmd = [] \<longrightarrow>
      fst (generateCommand g cmd) = Inr ''// Warning: rm command with no arguments''
      \<and> fst (generateStatements g [Statement StatementCommand (V_Command cmd)])
          = Inr ''// Warning: rm command with no arguments\<newline>'')
   \<and> (Name cmd = ''mkdir'' \<and> Args cmd = [] \<longrightarrow>
      fst (generateCommand g cmd) = Inr ''// Warning: mkdir command with no arguments''
      \<and> fst (generateStatements g [Statement StatementCommand (V_Command cmd)])
          = Inr ''// Warning: mkdir command with no arguments\<newline>'')
   \<and> (Name cmd = ''cp'' \<and> length (Args cmd) < 2 \<longrightarrow>
      fst (generateCommand g cmd) = Inr ''// Warning: cp command with insufficient arguments''
      \<and> fst (generateStatements g [Statement StatementCommand (V_Command cmd)])
          = Inr ''// Warning: cp command with insufficient arguments\<newline>'')"
  by (simp add: generateCommand_def StatementType_defs)

theorem generateCommand_warning_comment_witness:
  "fst (generateCommand {} \<lparr>Name = ''rm'', Args = [], IsBuiltin = False, UseGexe = True\<rparr>)
     = Inr ''// Warning: rm command with no arguments''
   \<and> fst (generateCommand {} \<lparr>Name = ''mkdir'', Args = [], IsBuiltin = False, UseGexe = True\<rparr>)
     = Inr ''// Warning: mkdir command with no arguments''
   \<and> fst (generateStatements {}
        [Statement StatementCommand
           (V_Command \<lparr>Name = ''cp'', Args = [''a.txt''], IsBuiltin = False, UseGexe = True\<rparr>)])
     = Inr ''// Warning: cp command with insufficient arguments\<newline>''"
  using
    generateCommand_warning_comment
      [of "\<lparr>Name = ''rm'', Args = [], IsBuiltin = False, UseGexe = True\<rparr>" "{}"]
    generateCommand_warning_comment
      [of "\<lparr>Name = ''mkdir'', Args = [], IsBuiltin = False, UseGexe = True\<rparr>" "{}"]
    generateCommand_warning_comment
      [of "\<lparr>Name = ''cp'', Args = [''a.txt''], IsBuiltin = False, UseGexe = True\<rparr>" "{}"]
  by simp

section \<open>Constructs without a lowering rule\<close>







lemma visit_no_case:
  "visit Walk ir Node_Other = ir"
  "visit Walk ir (Node_File f) = ir"
  "visit Walk ir (Node_Stmt s) = ir"
  "Op b \<noteq> Pipe \<Longrightarrow> visit Walk ir (Node_BinaryCmd b) = ir"
  by simp_all











section \<open>Order of the emitted declarations\<close>

text \<open>
  C2 fails on a program with the two variables A and B and their two assignments: both
  lists below are enumerations of its variable map, and \<open>Generate\<close> emits the two global
  declarations in the order in which the map yields them. Whatever the formatter is, it is handed two different texts
  in the two runs, one with A declared before B and one with B declared before A.
\<close>

theorem Generate_follows_map_order:
  "range_order [''A'' \<mapsto> ''1'', ''B'' \<mapsto> ''2''] [(''A'', ''1''), (''B'', ''2'')]
   \<and> range_order [''A'' \<mapsto> ''1'', ''B'' \<mapsto> ''2''] [(''B'', ''2''), (''A'', ''1'')]
   \<and> Generate format_Source
        \<lparr>Variables = [''A'' \<mapsto> ''1'', ''B'' \<mapsto> ''2''], Functions = Map.empty,
           MainStatements =
             [Statement StatementAssignment
                (V_Assignment \<lparr>Assignment_Name = ''A'', Assignment_Value = ''1'',
                                IsLocal = False, IsExport = False\<rparr>),
              Statement StatementAssignment
                (V_Assignment \<lparr>Assignment_Name = ''B'', Assignment_Value = ''2'',
                                IsLocal = False, IsExport = False\<rparr>)],
           RequiredPackages = [''fmt'' \<mapsto> True, ''os'' \<mapsto> True]\<rparr>
        [(''A'', ''1''), (''B'', ''2'')] []
     = Format format_Source
         (''package main\<newline>\<newline>var A = 1\<newline>var B = 2\<newline>\<newline>''
          @ ''// Main function generated from Bash script\<newline>func main() {\<newline>''
          @ TAB @ ''A := 1\<newline>'' @ TAB @ ''B := 2\<newline>'' @ TAB @ ''\<newline>}\<newline>\<newline>'')
   \<and> Generate format_Source
        \<lparr>Variables = [''A'' \<mapsto> ''1'', ''B'' \<mapsto> ''2''], Functions = Map.empty,
           MainStatements =
             [Statement StatementAssignment
                (V_Assignment \<lparr>Assignment_Name = ''A'', Assignment_Value = ''1'',
                                IsLocal = False, IsExport = False\<rparr>),
              Statement StatementAssignment
                (V_Assignment \<lparr>Assignment_Name = ''B'', Assignment_Value = ''2'',
                                IsLocal = False, IsExport = False\<rparr>)],
           RequiredPackages = [''fmt'' \<mapsto> True, ''os'' \<mapsto> True]\<rparr>
        [(''B'', ''2''), (''A'', ''1'')] []
     = Format format_Source
         (''package main\<newline>\<newline>var B = 2\<newline>var A = 1\<newline>\<newline>''
          @ ''// Main function generated from Bash script\<newline>func main() {\<newline>''
          @ TAB @ ''A := 1\<newline>'' @ TAB @ ''B := 2\<newline>'' @ TAB @ ''\<newline>}\<newline>\<newline>'')
   \<and> Generate Inr
        \<lparr>Variables = [''A'' \<mapsto> ''1'', ''B'' \<mapsto> ''2''], Functions = Map.empty,
           MainStatements =
             [Statement StatementAssignment
                (V_Assignment \<lparr>Assignment_Name = ''A'', Assignment_Value = ''1'',
                                IsLocal = False, IsExport = False\<rparr>),
              Statement StatementAssignment
                (V_Assignment \<lparr>Assignment_Name = ''B'', Assignment_Value = ''2'',
                                IsLocal = False, IsExport = False\<rparr>)],
           RequiredPackages = [''fmt'' \<mapsto> True, ''os'' \<mapsto> True]\<rparr>
        [(''A'', ''1''), (''B'', ''2'')] []
     \<noteq> Generate Inr
        \<lparr>Variables = [''A'' \<mapsto> ''1'', ''B'' \<mapsto> ''2''], Functions = Map.empty,
           MainStatements =
             [Statement StatementAssignment
                (V_Assignment \<lparr>Assignment_Name = ''A'', Assignment_Value = ''1'',
                                IsLocal = False, IsExport = False\<rparr>),
              Statement StatementAssignment
                (V_Assignment \<lparr>Assignment_Name = ''B'', Assignment_Value = ''2'',
                                IsLocal = False, IsExport = False\<rparr>)],
           RequiredPackages = [''fmt'' \<mapsto> True, ''os'' \<mapsto> True]\<rparr>
        [(''B'', ''2''), (''A'', ''1'')] []"
proof (intro conjI)
  show "range_order [''A'' \<mapsto> ''1'', ''B'' \<mapsto> ''2''] [(''A'', ''1''), (''B'', ''2'')]"
    by (auto simp: range_order_def fun_eq_iff)
  show "range_order [''A'' \<mapsto> ''1'', ''B'' \<mapsto> ''2''] [(''B'', ''2''), (''A'', ''1'')]"
    by (auto simp: range_order_def fun_eq_iff)
qed (simp_all add: Generate_def Generate_codegen_def NewCodeGenerator_def NewCodeBuilder_def
      AddGlobal_def AddFunction_def Build_def Build_source_def Format_def WriteLine_def
      Indent_def Outdent_def write_function_def Split_def Split_from.simps Let_def
      StatementType_defs generateAssignment_def HasPrefix_def)

end
